theory Spec2Isabelle
  imports Main "HOL-Library.Word" "HOL-Library.Sublist"
begin

section \<open>Strings of the source language\<close>

text \<open>
  The extension is TypeScript. A string there is a sequence of UTF-16 code units:
  \<^verbatim>\<open>length\<close>, \<^verbatim>\<open>charAt\<close>, \<^verbatim>\<open>slice\<close>, \<^verbatim>\<open>split('')\<close> and \<^verbatim>\<open>startsWith\<close> all count and
  compare code units. A string is therefore a list of 16-bit words.
\<close>

type_synonym jschar = "16 word"
type_synonym jsstring = "jschar list"

abbreviation BACKSLASH :: jschar where "BACKSLASH \<equiv> 0x5C"
abbreviation UNDERSCORE :: jschar where "UNDERSCORE \<equiv> 0x5F"
abbreviation CARET :: jschar where "CARET \<equiv> 0x5E"
abbreviation COLON :: jschar where "COLON \<equiv> 0x3A"

text \<open>\<^verbatim>\<open>s.charAt(i)\<close>: the one-unit string at index \<open>i\<close>, the empty string out of range.\<close>

definition charAt :: "jsstring \<Rightarrow> nat \<Rightarrow> jsstring" where
  "charAt s i = (if i < length s then [s ! i] else [])"

text \<open>\<^verbatim>\<open>s.startsWith(p)\<close>: literal comparison of the first \<open>length p\<close> code units.\<close>

definition startsWith :: "jsstring \<Rightarrow> jsstring \<Rightarrow> bool" where
  "startsWith s p = (take (length p) s = p)"

text \<open>\<^verbatim>\<open>s.includes(c)\<close> for a one-unit search string.\<close>

definition includes_str :: "jsstring \<Rightarrow> jschar \<Rightarrow> bool" where
  "includes_str s c = (c \<in> set s)"

text \<open>
  \<^verbatim>\<open>s.slice(i)\<close>: a negative index counts from the end, and the start is clamped to the
  string, so the result is empty when \<open>i\<close> is beyond the end.
\<close>

definition slice :: "jsstring \<Rightarrow> int \<Rightarrow> jsstring" where
  "slice s i = (if i < 0 then drop (nat (int (length s) + i)) s else drop (nat i) s)"

text \<open>\<^verbatim>\<open>s.split(sep)\<close> for a one-unit separator: the pieces between the separators.\<close>

fun split :: "jsstring \<Rightarrow> jschar \<Rightarrow> jsstring list" where
  "split [] sep = [[]]"
| "split (c # cs) sep =
     (if c = sep then [] # split cs sep
      else (case split cs sep of [] \<Rightarrow> [[c]] | p # ps \<Rightarrow> (c # p) # ps))"

text \<open>\<^verbatim>\<open>s.split('')\<close>: one one-unit string for each code unit.\<close>

definition split_units :: "jsstring \<Rightarrow> jsstring list" where
  "split_units s = map (\<lambda>c. [c]) s"

text \<open>\<^verbatim>\<open>xs.join('')\<close>.\<close>

definition join :: "jsstring list \<Rightarrow> jsstring" where
  "join xs = concat xs"

text \<open>
  \<^verbatim>\<open>s.lastIndexOf(c)\<close> for a one-unit search string: the greatest index holding \<open>c\<close>,
  and \<open>-1\<close> when there is none.
\<close>

fun lastIndexOf :: "jsstring \<Rightarrow> jschar \<Rightarrow> int" where
  "lastIndexOf [] c = - 1"
| "lastIndexOf (x # xs) c =
     (let r = lastIndexOf xs c
      in if 0 \<le> r then r + 1 else if x = c then 0 else - 1)"

text \<open>
  \<^verbatim>\<open>s.trim()\<close> removes white space and line terminators from both ends: TAB, LF, VT, FF,
  CR, SPACE, NBSP, U+1680, U+2000 to U+200A, U+2028, U+2029, U+202F, U+205F, U+3000 and
  U+FEFF.
\<close>

definition isWhiteSpace :: "jschar \<Rightarrow> bool" where
  "isWhiteSpace c =
     (c \<in> set [0x09, 0x0A, 0x0B, 0x0C, 0x0D, 0x20, 0xA0, 0x1680,
                0x2000, 0x2001, 0x2002, 0x2003, 0x2004, 0x2005, 0x2006, 0x2007,
                0x2008, 0x2009, 0x200A, 0x2028, 0x2029, 0x202F, 0x205F, 0x3000, 0xFEFF])"

definition trim :: "jsstring \<Rightarrow> jsstring" where
  "trim s = rev (dropWhile isWhiteSpace (rev (dropWhile isWhiteSpace s)))"

section \<open>Symbol tables\<close>

text \<open>
  A table is an object of type \<^verbatim>\<open>{[key: string]: string}\<close>, written here as an
  association list. \<open>lookup t k\<close> is the property read \<^verbatim>\<open>t[k]\<close>, with \<open>None\<close> for
  \<^verbatim>\<open>undefined\<close>; \<open>Object_keys t\<close> is \<^verbatim>\<open>Object.keys(t)\<close>, each key once. The words that
  reach \<^verbatim>\<open>doWord\<close> come from \<^verbatim>\<open>evalPosition\<close> and start with a backslash, so every key
  the extension reads is a single code unit or starts with a backslash, which no property
  inherited from \<^verbatim>\<open>Object.prototype\<close> does: only own properties are ever found.

  The primary table \<^verbatim>\<open>codes\<close> is the constructor argument of the class
  \<^verbatim>\<open>UnicodeMaths\<close>; it is a parameter of every function below that reads it.
\<close>

type_synonym table = "(jsstring \<times> jsstring) list"

definition lookup :: "table \<Rightarrow> jsstring \<Rightarrow> jsstring option" where
  "lookup t k = map_of t k"

definition Object_keys :: "table \<Rightarrow> jsstring list" where
  "Object_keys t = remdups (map fst t)"

text \<open>
  \<^verbatim>\<open>t[k] || d\<close>: the operator \<^verbatim>\<open>||\<close> yields its right operand when the left one is
  falsy, and both \<^verbatim>\<open>undefined\<close> and the empty string are falsy.
\<close>

definition or_else :: "jsstring option \<Rightarrow> 'a \<Rightarrow> (jsstring \<Rightarrow> 'a) \<Rightarrow> 'a" where
  "or_else v d f = (case v of None \<Rightarrow> d | Some s \<Rightarrow> if s = [] then d else f s)"

text \<open>The superscript table \<^verbatim>\<open>sups\<close>, in the order of the source.\<close>

definition sups :: table where
  "sups =
    [([0x4C], [0x1D38]), ([0x49], [0x1D35]), ([0x79], [0x02B8]), ([0x39], [0x2079]),
     ([0x30], [0x2070]), ([0x3B4], [0x1D5F]), ([0x77], [0x02B7]), ([0x34], [0x2074]),
     ([0x6C], [0x02E1]), ([0x5A], [0x1DBB]), ([0x50], [0x1D3E]), ([0x62], [0x1D47]),
     ([0x37], [0x2077]), ([0x29], [0x207E]), ([0x68], [0x02B0]), ([0x36], [0x2076]),
     ([0x57], [0x1D42]), ([0x3D], [0x207C]), ([0x3C7], [0x1D61]), ([0x6D], [0x1D50]),
     ([0x2D], [0x207B]), ([0x72], [0x02B3]), ([0x70], [0x1D56]), ([0x63], [0x1D9C]),
     ([0x76], [0x1D5B]), ([0x64], [0x1D48]), ([0x3D5], [0x1D60]), ([0x3B8], [0x1DBF]),
     ([0x31], [0x00B9]), ([0x54], [0x1D40]), ([0x6F], [0x1D3C]), ([0x4B], [0x1D37]),
     ([0x65], [0x1D49]), ([0x47], [0x1D33]), ([0x74], [0x1D57]), ([0x38], [0x2078]),
     ([0x3B2], [0x1D5D]), ([0x56], [0x2C7D]), ([0x4D], [0x1D39]), ([0x73], [0x02E2]),
     ([0x69], [0x2071]), ([0x6B], [0x1D4F]), ([0x3B1], [0x1D45]), ([0x41], [0x1D2C]),
     ([0x35], [0x2075]), ([0x32], [0x00B2]), ([0x75], [0x1DB8]), ([0x48], [0x1D34]),
     ([0x67], [0x1D4D]), ([0x28], [0x207D]), ([0x6A], [0x02B2]), ([0x66], [0x1DA0]),
     ([0x44], [0x1D30]), ([0x3B3], [0x1D5E]), ([0x55], [0x1D41]), ([0x45], [0x1D31]),
     ([0x61], [0x1D43]), ([0x4E], [0x1D3A]), ([0x6E], [0x207F]), ([0x42], [0x1D2E]),
     ([0x78], [0x02E3]), ([0x33], [0x00B3]), ([0x52], [0x1D3F]), ([0x2B], [0x207A]),
     ([0x4A], [0x1D36])]"

text \<open>The subscript table \<^verbatim>\<open>subs\<close>, in the order of the source.\<close>

definition subs :: table where
  "subs =
    [([0x31], [0x2081]), ([0x29], [0x208E]), ([0x6D], [0x2098]), ([0x34], [0x2084]),
     ([0x6A], [0x2C7C]), ([0x37], [0x2087]), ([0x3B2], [0x1D66]), ([0x38], [0x2088]),
     ([0x32], [0x2082]), ([0x33], [0x2083]), ([0x73], [0x209B]), ([0x75], [0x1D64]),
     ([0x3C7], [0x1D6A]), ([0x35], [0x2085]), ([0x74], [0x209C]), ([0x68], [0x2095]),
     ([0x2D], [0x208B]), ([0x3C1], [0x1D68]), ([0x2B], [0x208A]), ([0x6F], [0x2092]),
     ([0x76], [0x1D65]), ([0x72], [0x1D63]), ([0x36], [0x2086]), ([0x28], [0x208D]),
     ([0x6B], [0x2096]), ([0x78], [0x2093]), ([0x39], [0x2089]), ([0x3D], [0x208C]),
     ([0x65], [0x2091]), ([0x6C], [0x2097]), ([0x69], [0x1D62]), ([0x3D5], [0x1D69]),
     ([0x61], [0x2090]), ([0x70], [0x209A]), ([0x6E], [0x2099]), ([0x30], [0x2080])]"

section \<open>The expander: \<^verbatim>\<open>doWord\<close> and its helpers\<close>

text \<open>The string literals of the source.\<close>

definition str_i_colon :: jsstring where "str_i_colon = [BACKSLASH, 0x69, COLON]"
definition str_b_colon :: jsstring where "str_b_colon = [BACKSLASH, 0x62, COLON]"
definition str_mbf :: jsstring where "str_mbf = [BACKSLASH, 0x6D, 0x62, 0x66]"
definition str_mit :: jsstring where "str_mit = [BACKSLASH, 0x6D, 0x69, 0x74]"
definition str_foo :: jsstring where "str_foo = [0x66, 0x6F, 0x6F]"

text \<open>
  \<^verbatim>\<open>mapToSubSup(word, mapper)\<close>: every code unit after the two-unit prefix goes through
  \<^verbatim>\<open>mapper[c] || c\<close>; \<^verbatim>\<open>null\<close> when the joined result equals the suffix.
\<close>

definition mapToSubSup :: "jsstring \<Rightarrow> table \<Rightarrow> jsstring option" where
  "mapToSubSup word mapper =
     (let target = slice word 2;
          newStr = join (map (\<lambda>c. or_else (lookup mapper c) c id) (split_units target))
      in if newStr = target then None else Some newStr)"

text \<open>\<^verbatim>\<open>mapToBoldIt(word, bold)\<close>: the same over the suffix after three units, with the key
  \<^verbatim>\<open>codePrefix + c\<close> read from the primary table.\<close>

definition mapToBoldIt :: "table \<Rightarrow> jsstring \<Rightarrow> bool \<Rightarrow> jsstring option" where
  "mapToBoldIt codes word bold =
     (let target = slice word 3;
          codePrefix = (if bold then str_mbf else str_mit);
          newStr = join (map (\<lambda>c. or_else (lookup codes (codePrefix @ c)) c id)
                             (split_units target))
      in if newStr = target then None else Some newStr)"

text \<open>\<^verbatim>\<open>mapTo(word)\<close>: split at every colon; only a split into exactly two pieces is
  mapped, anything else is \<^verbatim>\<open>null\<close>.\<close>

definition mapTo :: "table \<Rightarrow> jsstring \<Rightarrow> jsstring option" where
  "mapTo codes word =
     (case split word COLON of
        [modPrefix, newStr] \<Rightarrow>
          (let modStr = join (map (\<lambda>c. or_else (lookup codes (modPrefix @ c)) c id)
                                  (split_units newStr))
           in if modStr = newStr then None else Some modStr)
      | _ \<Rightarrow> None)"

text \<open>\<^verbatim>\<open>doWord(word)\<close>: the dispatch, in the order of the source. The last line is
  \<^verbatim>\<open>this.codes[word] || null\<close>.\<close>

definition doWord :: "table \<Rightarrow> jsstring \<Rightarrow> jsstring option" where
  "doWord codes word =
     (let startChar = charAt word 1
      in if startChar = [UNDERSCORE] then mapToSubSup word subs
         else if startChar = [CARET] then mapToSubSup word sups
         else if startsWith word str_i_colon then Some str_foo
         else if startsWith word str_b_colon then mapToBoldIt codes word True
         else if \<not> startsWith word [BACKSLASH, COLON] \<and> startsWith word [BACKSLASH]
                 \<and> includes_str word COLON then mapTo codes word
         else or_else (lookup codes word) None Some)"

section \<open>The host's positions, ranges and documents\<close>

text \<open>
  \<^verbatim>\<open>Position\<close>, \<^verbatim>\<open>Range\<close> and \<^verbatim>\<open>TextDocument\<close> belong to the editor. Only what the source
  uses of them is modelled. The constructor of \<^verbatim>\<open>Position\<close> throws on a negative line
  or column; \<^verbatim>\<open>translate\<close> builds a new position through the same constructor; the
  constructor of \<^verbatim>\<open>Range\<close> orders its two ends. The field \<^verbatim>\<open>end\<close> of a range is
  \<open>end_pos\<close> here, and the field \<^verbatim>\<open>range\<close> of a completion item is \<open>item_range\<close>.
\<close>

datatype exn = IllegalArgument | TypeError

record Position =
  line :: nat
  character :: nat

record Range =
  start :: Position
  end_pos :: Position

definition new_Position :: "int \<Rightarrow> int \<Rightarrow> exn + Position" where
  "new_Position l c =
     (if l < 0 \<or> c < 0 then Inl IllegalArgument
      else Inr \<lparr>line = nat l, character = nat c\<rparr>)"

definition translate :: "Position \<Rightarrow> int \<Rightarrow> int \<Rightarrow> exn + Position" where
  "translate p lineDelta characterDelta =
     new_Position (int (line p) + lineDelta) (int (character p) + characterDelta)"

definition isBefore :: "Position \<Rightarrow> Position \<Rightarrow> bool" where
  "isBefore p q = (line p < line q \<or> (line p = line q \<and> character p < character q))"

definition new_Range :: "Position \<Rightarrow> Position \<Rightarrow> Range" where
  "new_Range a b = (if isBefore b a then \<lparr>start = b, end_pos = a\<rparr> else \<lparr>start = a, end_pos = b\<rparr>)"

text \<open>
  A document is its list of lines. \<^verbatim>\<open>document.getText(range)\<close> is modelled for a range
  inside one line, the only kind the source asks for: the text of that line between the
  two columns, a column beyond the end of the line counting as the end of the line. For
  any other range the model returns the empty string.
\<close>

type_synonym TextDocument = "jsstring list"

definition getText :: "TextDocument \<Rightarrow> Range \<Rightarrow> jsstring" where
  "getText document r =
     (if line (start r) = line (end_pos r) \<and> line (start r) < length document
      then drop (character (start r)) (take (character (end_pos r)) (document ! line (start r)))
      else [])"

section \<open>The locator: \<^verbatim>\<open>getWordRangeAtPosition\<close> and \<^verbatim>\<open>evalPosition\<close>\<close>

text \<open>
  \<^verbatim>\<open>getWordRangeAtPosition\<close>, statement by statement. \<open>slash\<close> is \<open>-1\<close> when the text
  before the cursor has no backslash; \<^verbatim>\<open>new Position(position.line, slash)\<close> then throws,
  which is the \<open>Inl\<close> result here.
\<close>

definition getWordRangeAtPosition :: "TextDocument \<Rightarrow> Position \<Rightarrow> exn + (Range \<times> jsstring)" where
  "getWordRangeAtPosition document position =
     (case new_Position (int (line position)) 0 of
        Inl e \<Rightarrow> Inl e
      | Inr lineStart \<Rightarrow>
          (let lnRange = new_Range lineStart position;
               ln = getText document lnRange;
               slash = lastIndexOf ln BACKSLASH;
               word = trim (slice ln slash)
           in case new_Position (int (line position)) slash of
                Inl e \<Rightarrow> Inl e
              | Inr startPos \<Rightarrow>
                  (case translate startPos 0 (int (length word)) of
                     Inl e \<Rightarrow> Inl e
                   | Inr endPos \<Rightarrow> Inr (new_Range startPos endPos, word))))"

text \<open>
  \<^verbatim>\<open>evalPosition\<close>: column 0 is refused first; the \<^verbatim>\<open>try\<close> block turns anything thrown
  by \<^verbatim>\<open>getWordRangeAtPosition\<close> into \<^verbatim>\<open>[null, null]\<close>, which is \<open>None\<close> here; so does an
  empty word or one that does not start with a backslash.
\<close>

definition evalPosition :: "TextDocument \<Rightarrow> Position \<Rightarrow> (Range \<times> jsstring) option" where
  "evalPosition document position =
     (if character position = 0 then None
      else (case getWordRangeAtPosition document position of
              Inl e \<Rightarrow> None
            | Inr (rng, word) \<Rightarrow>
                if word = [] \<or> \<not> startsWith word [BACKSLASH] then None
                else Some (rng, word)))"

section \<open>The completion provider\<close>

text \<open>
  A \<^verbatim>\<open>CompletionItem\<close> with the fields the source sets. \<^verbatim>\<open>detail\<close> and \<^verbatim>\<open>insertText\<close> are
  the property read \<^verbatim>\<open>this.codes[key]\<close>, kept as an option.
\<close>

record CompletionItem =
  label :: jsstring
  detail :: "jsstring option"
  insertText :: "jsstring option"
  item_range :: Range

text \<open>\<^verbatim>\<open>this.keys.filter((k) => k.startsWith(word))\<close>, with \<^verbatim>\<open>this.keys = Object.keys(codes)\<close>.\<close>

definition matches :: "table \<Rightarrow> jsstring \<Rightarrow> jsstring list" where
  "matches codes word = filter (\<lambda>k. startsWith k word) (Object_keys codes)"

text \<open>\<^verbatim>\<open>matches.map((key) => ...)\<close>: one item for each matching key.\<close>

definition completionItems :: "table \<Rightarrow> Range \<Rightarrow> jsstring \<Rightarrow> CompletionItem list" where
  "completionItems codes target word =
     map (\<lambda>key. \<lparr>label = key, detail = lookup codes key,
                  insertText = lookup codes key, item_range = target\<rparr>)
         (matches codes word)"

text \<open>\<^verbatim>\<open>provideCompletionItems\<close>: no item when the locator finds no token.\<close>

definition provideCompletionItems :: "table \<Rightarrow> TextDocument \<Rightarrow> Position \<Rightarrow> CompletionItem list" where
  "provideCompletionItems codes document position =
     (case evalPosition document position of
        None \<Rightarrow> []
      | Some (target, word) \<Rightarrow>
          if word = [] then [] else completionItems codes target word)"

section \<open>Evaluation over the values of the language\<close>

text \<open>
  The definitions above give what each function returns. To state that nothing is
  thrown and that nothing but a string or \<^verbatim>\<open>null\<close> comes back, the same functions are
  written once more over the values the language has at run time, each operation with
  the failure it has there:
  \<^item> a property read \<^verbatim>\<open>t[k]\<close> finds an own property, else a property inherited from
    \<^verbatim>\<open>Object.prototype\<close> (a function or an object, never a string), else
    \<^verbatim>\<open>undefined\<close>;
  \<^item> an array read \<^verbatim>\<open>xs[i]\<close> is \<^verbatim>\<open>undefined\<close> out of range;
  \<^item> a method call on anything but a string throws a \<^verbatim>\<open>TypeError\<close>;
  \<^item> \<^verbatim>\<open>+\<close> and \<^verbatim>\<open>join\<close> turn their operands into strings; the text of an inherited
    member is left to the engine and is the parameter \<open>native\<close>;
  \<^item> \<^verbatim>\<open>try\<close> and \<^verbatim>\<open>catch\<close> hand a thrown value to the handler.
  \<^verbatim>\<open>TypeError\<close> is the second value of \<open>exn\<close>.
\<close>

datatype jsval = JUndefined | JNull | JStr jsstring | JInherited jsstring

text \<open>
  The property names of \<^verbatim>\<open>Object.prototype\<close>: \<^verbatim>\<open>constructor\<close>, \<^verbatim>\<open>__defineGetter__\<close>,
  \<^verbatim>\<open>__defineSetter__\<close>, \<^verbatim>\<open>hasOwnProperty\<close>, \<^verbatim>\<open>__lookupGetter__\<close>, \<^verbatim>\<open>__lookupSetter__\<close>,
  \<^verbatim>\<open>isPrototypeOf\<close>, \<^verbatim>\<open>propertyIsEnumerable\<close>, \<^verbatim>\<open>toString\<close>, \<^verbatim>\<open>valueOf\<close>, \<^verbatim>\<open>__proto__\<close>
  and \<^verbatim>\<open>toLocaleString\<close>.
\<close>

definition Object_prototype_names :: "jsstring list" where
  "Object_prototype_names =
    [[0x63, 0x6F, 0x6E, 0x73, 0x74, 0x72, 0x75, 0x63, 0x74, 0x6F, 0x72],
     [0x5F, 0x5F, 0x64, 0x65, 0x66, 0x69, 0x6E, 0x65, 0x47, 0x65, 0x74, 0x74, 0x65, 0x72, 0x5F, 0x5F],
     [0x5F, 0x5F, 0x64, 0x65, 0x66, 0x69, 0x6E, 0x65, 0x53, 0x65, 0x74, 0x74, 0x65, 0x72, 0x5F, 0x5F],
     [0x68, 0x61, 0x73, 0x4F, 0x77, 0x6E, 0x50, 0x72, 0x6F, 0x70, 0x65, 0x72, 0x74, 0x79],
     [0x5F, 0x5F, 0x6C, 0x6F, 0x6F, 0x6B, 0x75, 0x70, 0x47, 0x65, 0x74, 0x74, 0x65, 0x72, 0x5F, 0x5F],
     [0x5F, 0x5F, 0x6C, 0x6F, 0x6F, 0x6B, 0x75, 0x70, 0x53, 0x65, 0x74, 0x74, 0x65, 0x72, 0x5F, 0x5F],
     [0x69, 0x73, 0x50, 0x72, 0x6F, 0x74, 0x6F, 0x74, 0x79, 0x70, 0x65, 0x4F, 0x66],
     [0x70, 0x72, 0x6F, 0x70, 0x65, 0x72, 0x74, 0x79, 0x49, 0x73, 0x45, 0x6E, 0x75, 0x6D, 0x65, 0x72, 0x61, 0x62, 0x6C, 0x65],
     [0x74, 0x6F, 0x53, 0x74, 0x72, 0x69, 0x6E, 0x67],
     [0x76, 0x61, 0x6C, 0x75, 0x65, 0x4F, 0x66],
     [0x5F, 0x5F, 0x70, 0x72, 0x6F, 0x74, 0x6F, 0x5F, 0x5F],
     [0x74, 0x6F, 0x4C, 0x6F, 0x63, 0x61, 0x6C, 0x65, 0x53, 0x74, 0x72, 0x69, 0x6E, 0x67]]"

definition get_property :: "table \<Rightarrow> jsstring \<Rightarrow> jsval" where
  "get_property t k =
     (case map_of t k of
        Some v \<Rightarrow> JStr v
      | None \<Rightarrow> if k \<in> set Object_prototype_names then JInherited k else JUndefined)"

definition truthy :: "jsval \<Rightarrow> bool" where
  "truthy v =
     (case v of JUndefined \<Rightarrow> False | JNull \<Rightarrow> False | JStr s \<Rightarrow> s \<noteq> []
      | JInherited n \<Rightarrow> True)"

definition js_or :: "jsval \<Rightarrow> jsval \<Rightarrow> jsval" where
  "js_or a b = (if truthy a then a else b)"

definition at_index :: "jsstring list \<Rightarrow> nat \<Rightarrow> jsval" where
  "at_index xs i = (if i < length xs then JStr (xs ! i) else JUndefined)"

text \<open>\<^verbatim>\<open>v.split('')\<close> on a value that need not be a string.\<close>

definition call_split_units :: "jsval \<Rightarrow> exn + jsstring list" where
  "call_split_units v = (case v of JStr s \<Rightarrow> Inr (split_units s) | _ \<Rightarrow> Inl TypeError)"

text \<open>The strings \<^verbatim>\<open>undefined\<close> and \<^verbatim>\<open>null\<close>.\<close>

definition str_undefined :: jsstring where
  "str_undefined = [0x75, 0x6E, 0x64, 0x65, 0x66, 0x69, 0x6E, 0x65, 0x64]"

definition str_null :: jsstring where
  "str_null = [0x6E, 0x75, 0x6C, 0x6C]"

definition ToString :: "(jsstring \<Rightarrow> jsstring) \<Rightarrow> jsval \<Rightarrow> jsstring" where
  "ToString native v =
     (case v of JUndefined \<Rightarrow> str_undefined | JNull \<Rightarrow> str_null | JStr s \<Rightarrow> s
      | JInherited n \<Rightarrow> native n)"

text \<open>\<^verbatim>\<open>vs.join('')\<close>: \<^verbatim>\<open>undefined\<close> and \<^verbatim>\<open>null\<close> count as the empty string.\<close>

definition join_vals :: "(jsstring \<Rightarrow> jsstring) \<Rightarrow> jsval list \<Rightarrow> jsstring" where
  "join_vals native vs =
     concat (map (\<lambda>v. case v of JUndefined \<Rightarrow> [] | JNull \<Rightarrow> []
                        | JStr s \<Rightarrow> s | JInherited n \<Rightarrow> native n) vs)"

definition try_catch :: "exn + 'a \<Rightarrow> (exn \<Rightarrow> exn + 'a) \<Rightarrow> exn + 'a" where
  "try_catch body handler = (case body of Inl e \<Rightarrow> handler e | Inr v \<Rightarrow> Inr v)"

text \<open>\<^verbatim>\<open>mapToSubSup\<close>, \<^verbatim>\<open>mapToBoldIt\<close> and \<^verbatim>\<open>mapTo\<close> over these values. Only \<^verbatim>\<open>mapTo\<close>
  calls a method on a value read from an array.\<close>

definition mapToSubSup_js :: "(jsstring \<Rightarrow> jsstring) \<Rightarrow> jsstring \<Rightarrow> table \<Rightarrow> jsval" where
  "mapToSubSup_js native word mapper =
     (let target = slice word 2;
          newStr = join_vals native
                     (map (\<lambda>c. js_or (get_property mapper c) (JStr c)) (split_units target))
      in if newStr = target then JNull else JStr newStr)"

definition mapToBoldIt_js :: "(jsstring \<Rightarrow> jsstring) \<Rightarrow> table \<Rightarrow> jsstring \<Rightarrow> bool \<Rightarrow> jsval" where
  "mapToBoldIt_js native codes word bold =
     (let target = slice word 3;
          codePrefix = (if bold then str_mbf else str_mit);
          newStr = join_vals native
                     (map (\<lambda>c. js_or (get_property codes (codePrefix @ c)) (JStr c))
                          (split_units target))
      in if newStr = target then JNull else JStr newStr)"

definition mapTo_js :: "(jsstring \<Rightarrow> jsstring) \<Rightarrow> table \<Rightarrow> jsstring \<Rightarrow> exn + jsval" where
  "mapTo_js native codes word =
     (let modifier = split word COLON
      in if length modifier = 2
         then (let modPrefix = at_index modifier 0;
                   newStr = at_index modifier 1
               in case call_split_units newStr of
                    Inl e \<Rightarrow> Inl e
                  | Inr units \<Rightarrow>
                      (let modStr = join_vals native
                             (map (\<lambda>c. js_or (get_property codes (ToString native modPrefix @ c))
                                              (JStr c)) units)
                       in Inr (if JStr modStr = newStr then JNull else JStr modStr)))
         else Inr JNull)"

definition doWord_js :: "(jsstring \<Rightarrow> jsstring) \<Rightarrow> table \<Rightarrow> jsstring \<Rightarrow> exn + jsval" where
  "doWord_js native codes word =
     (let startChar = charAt word 1
      in if startChar = [UNDERSCORE] then Inr (mapToSubSup_js native word subs)
         else if startChar = [CARET] then Inr (mapToSubSup_js native word sups)
         else if startsWith word str_i_colon then Inr (JStr str_foo)
         else if startsWith word str_b_colon then Inr (mapToBoldIt_js native codes word True)
         else if \<not> startsWith word [BACKSLASH, COLON] \<and> startsWith word [BACKSLASH]
                 \<and> includes_str word COLON then mapTo_js native codes word
         else Inr (js_or (get_property codes word) JNull))"

text \<open>\<^verbatim>\<open>evalPosition\<close> with its \<^verbatim>\<open>try\<close> block written as such.\<close>

definition evalPosition_js :: "TextDocument \<Rightarrow> Position \<Rightarrow> exn + (Range \<times> jsstring) option" where
  "evalPosition_js document position =
     (if character position = 0 then Inr None
      else try_catch
             (case getWordRangeAtPosition document position of
                Inl e \<Rightarrow> Inl e
              | Inr (rng, word) \<Rightarrow>
                  Inr (if word = [] \<or> \<not> startsWith word [BACKSLASH] then None
                       else Some (rng, word)))
             (\<lambda>e. Inr None))"

text \<open>A result of the functions above as a value of the language.\<close>

definition to_jsval :: "jsstring option \<Rightarrow> jsval" where
  "to_jsval r = (case r of None \<Rightarrow> JNull | Some s \<Rightarrow> JStr s)"

section \<open>The mappings the specification describes\<close>

text \<open>
  The specification describes the character-level modes in the same words each time:
  every character \<open>c\<close> of the payload is replaced by the table's entry for the key
  \<open>pre + c\<close> when that entry exists and stays itself otherwise, and the expansion is
  absent when the mapped string equals the payload. \<open>entry_or_self\<close> and \<open>described\<close>
  follow those words; the prefix is empty for the subscript and superscript tables.
\<close>

definition entry_or_self :: "table \<Rightarrow> jsstring \<Rightarrow> jschar \<Rightarrow> jsstring" where
  "entry_or_self t pre c = (case lookup t (pre @ [c]) of None \<Rightarrow> [c] | Some v \<Rightarrow> v)"

definition mapped :: "table \<Rightarrow> jsstring \<Rightarrow> jsstring \<Rightarrow> jsstring" where
  "mapped t pre s = concat (map (entry_or_self t pre) s)"

definition described :: "table \<Rightarrow> jsstring \<Rightarrow> jsstring \<Rightarrow> jsstring option" where
  "described t pre s = (if mapped t pre s = s then None else Some (mapped t pre s))"

text \<open>
  The same with one change: an entry that is the empty string counts as no entry.
\<close>

definition filled_entry_or_self :: "table \<Rightarrow> jsstring \<Rightarrow> jschar \<Rightarrow> jsstring" where
  "filled_entry_or_self t pre c =
     (case lookup t (pre @ [c]) of None \<Rightarrow> [c] | Some v \<Rightarrow> if v = [] then [c] else v)"

definition mapped_filled :: "table \<Rightarrow> jsstring \<Rightarrow> jsstring \<Rightarrow> jsstring" where
  "mapped_filled t pre s = concat (map (filled_entry_or_self t pre) s)"

definition described_filled :: "table \<Rightarrow> jsstring \<Rightarrow> jsstring \<Rightarrow> jsstring option" where
  "described_filled t pre s =
     (if mapped_filled t pre s = s then None else Some (mapped_filled t pre s))"

text \<open>The number of colons in a token.\<close>

definition colons :: "jsstring \<Rightarrow> nat" where
  "colons w = length (filter (\<lambda>c. c = COLON) w)"

text \<open>
  The text of the cursor's line before the cursor: the value of the variable \<^verbatim>\<open>line\<close> in
  \<^verbatim>\<open>getWordRangeAtPosition\<close>.
\<close>

definition lineBefore :: "TextDocument \<Rightarrow> Position \<Rightarrow> jsstring" where
  "lineBefore document position =
     getText document (new_Range \<lparr>line = line position, character = 0\<rparr> position)"

section \<open>Facts about the string operations\<close>

lemma startsWith_prefix: "startsWith s p \<longleftrightarrow> prefix p s"
  unfolding startsWith_def prefix_def
  by (metis append_eq_conv_conj append_take_drop_id)

lemma join_map_units: "join (map f (split_units s)) = concat (map (\<lambda>c. f [c]) s)"
  by (simp add: join_def split_units_def comp_def)

lemma split_not_Nil: "split w sep \<noteq> []"
  by (induction w) (auto split: list.splits)

lemma split_no_sep: "sep \<notin> set p \<Longrightarrow> split p sep = [p]"
  by (induction p) auto

lemma split_first: "sep \<notin> set m \<Longrightarrow> split (m @ sep # p) sep = m # split p sep"
  by (induction m) auto

lemma length_split: "length (split w sep) = Suc (length (filter (\<lambda>c. c = sep) w))"
  by (induction w) (auto simp: split_not_Nil split: list.splits)

text \<open>\<^verbatim>\<open>lastIndexOf\<close> finds the last occurrence, or \<open>-1\<close>.\<close>

lemma lastIndexOf_lt: "lastIndexOf s c < int (length s)"
  by (induction s) (auto simp: Let_def)

lemma lastIndexOf_absent: "c \<notin> set s \<Longrightarrow> lastIndexOf s c = - 1"
  by (induction s) (auto simp: Let_def)

lemma lastIndexOf_present: "c \<in> set s \<Longrightarrow> 0 \<le> lastIndexOf s c"
  by (induction s) (auto simp: Let_def)

lemma lastIndexOf_nth:
  "0 \<le> lastIndexOf s c \<Longrightarrow>
     s ! nat (lastIndexOf s c) = c \<and> c \<notin> set (drop (Suc (nat (lastIndexOf s c))) s)"
proof (induction s)
  case Nil
  then show ?case by simp
next
  case (Cons x xs)
  show ?case
  proof (cases "0 \<le> lastIndexOf xs c")
    case True
    then have "nat (lastIndexOf xs c + 1) = Suc (nat (lastIndexOf xs c))" by simp
    with True Cons.IH show ?thesis by (simp add: Let_def)
  next
    case False
    have "c \<notin> set xs"
      using lastIndexOf_present [of c xs] False by auto
    with Cons.prems False show ?thesis by (auto simp: Let_def split: if_splits)
  qed
qed

lemma drop_lastIndexOf:
  assumes "0 \<le> lastIndexOf s c"
  shows "drop (nat (lastIndexOf s c)) s = c # drop (Suc (nat (lastIndexOf s c))) s"
proof -
  have "nat (lastIndexOf s c) < length s"
    using assms lastIndexOf_lt [of s c] by simp
  then show ?thesis
    using lastIndexOf_nth [OF assms] by (metis Cons_nth_drop_Suc)
qed

text \<open>\<^verbatim>\<open>trim\<close> on a string that starts with a backslash only cuts at the end.\<close>

lemma backslash_not_ws: "\<not> isWhiteSpace BACKSLASH"
  by (simp add: isWhiteSpace_def)

lemma trim_backslash:
  "trim (BACKSLASH # xs) = BACKSLASH # rev (dropWhile isWhiteSpace (rev xs))"
  using backslash_not_ws by (simp add: trim_def dropWhile_append)

lemma trim_end_take:
  "rev (dropWhile P (rev xs)) = take (length (dropWhile P (rev xs))) xs"
proof -
  have "rev xs = takeWhile P (rev xs) @ dropWhile P (rev xs)" by simp
  then have "xs = rev (dropWhile P (rev xs)) @ rev (takeWhile P (rev xs))"
    by (metis rev_append rev_rev_ident)
  then show ?thesis
    by (metis append_eq_conv_conj length_rev)
qed

lemma length_dropWhile_full:
  "length (dropWhile P ys) = length ys \<longleftrightarrow> ys = [] \<or> \<not> P (hd ys)"
proof (cases ys)
  case Nil
  then show ?thesis by simp
next
  case (Cons y zs)
  have "length (dropWhile P zs) \<le> length zs" by (rule length_dropWhile_le)
  then show ?thesis using Cons by auto
qed

lemma trim_end_full:
  "length (dropWhile P (rev xs)) = length xs \<longleftrightarrow> xs = [] \<or> \<not> P (last xs)"
  using length_dropWhile_full [of P "rev xs"] by (auto simp: hd_rev)

text \<open>A map whose images are all one unit long keeps the length and works index by index.\<close>

lemma concat_units:
  assumes "\<And>c. length (f c) = 1"
  shows "length (concat (map f s)) = length s
         \<and> (\<forall>i<length s. [concat (map f s) ! i] = f (s ! i))"
proof (induction s)
  case Nil
  show ?case by simp
next
  case (Cons a s)
  obtain x where fa: "f a = [x]"
    using assms [of a] by (cases "f a") auto
  show ?case
  proof (intro conjI allI impI)
    show "length (concat (map f (a # s))) = length (a # s)"
      using Cons fa by simp
  next
    fix i assume "i < length (a # s)"
    then show "[concat (map f (a # s)) ! i] = f ((a # s) ! i)"
      using Cons fa by (cases i) auto
  qed
qed

section \<open>Facts about the two character tables\<close>

lemma subs_values: "\<forall>kv \<in> set subs. length (fst kv) = 1 \<and> length (snd kv) = 1"
  by (simp add: subs_def)

lemma sups_values: "\<forall>kv \<in> set sups. length (fst kv) = 1 \<and> length (snd kv) = 1"
  by (simp add: sups_def)

lemma lookup_subs_length: "lookup subs k = Some v \<Longrightarrow> length v = 1"
  using subs_values by (auto simp: lookup_def dest!: map_of_SomeD)

lemma lookup_sups_length: "lookup sups k = Some v \<Longrightarrow> length v = 1"
  using sups_values by (auto simp: lookup_def dest!: map_of_SomeD)

lemma filled_subs: "filled_entry_or_self subs [] c = entry_or_self subs [] c"
  using lookup_subs_length [of "[c]"]
  by (auto simp: filled_entry_or_self_def entry_or_self_def split: option.splits)

lemma filled_sups: "filled_entry_or_self sups [] c = entry_or_self sups [] c"
  using lookup_sups_length [of "[c]"]
  by (auto simp: filled_entry_or_self_def entry_or_self_def split: option.splits)

lemma length_entry_subs: "length (entry_or_self subs [] c) = 1"
  using lookup_subs_length [of "[c]"]
  by (auto simp: entry_or_self_def split: option.splits)

lemma length_entry_sups: "length (entry_or_self sups [] c) = 1"
  using lookup_sups_length [of "[c]"]
  by (auto simp: entry_or_self_def split: option.splits)

lemma mapped_filled_subs: "mapped_filled subs [] s = mapped subs [] s"
  by (simp add: mapped_filled_def mapped_def filled_subs cong: map_cong)

lemma mapped_filled_sups: "mapped_filled sups [] s = mapped sups [] s"
  by (simp add: mapped_filled_def mapped_def filled_sups cong: map_cong)

lemma described_filled_subs: "described_filled subs [] s = described subs [] s"
  by (simp add: described_filled_def described_def mapped_filled_subs)

lemma described_filled_sups: "described_filled sups [] s = described sups [] s"
  by (simp add: described_filled_def described_def mapped_filled_sups)

section \<open>What the three character-level helpers compute\<close>

lemma or_else_filled: "or_else (lookup t (pre @ [c])) [c] id = filled_entry_or_self t pre c"
  by (simp add: or_else_def filled_entry_or_self_def split: option.splits)

lemma or_else_filled_fun:
  "(\<lambda>c. or_else (lookup t (pre @ c)) c id) \<circ> (\<lambda>c. [c]) = filled_entry_or_self t pre"
  by (rule ext) (simp add: or_else_filled)

lemma mapToSubSup_filled: "mapToSubSup w t = described_filled t [] (drop 2 w)"
  using or_else_filled [of t "[]"]
  by (simp add: mapToSubSup_def slice_def join_map_units described_filled_def
      mapped_filled_def Let_def)

lemma mapToBoldIt_filled:
  "mapToBoldIt codes w True = described_filled codes str_mbf (drop 3 w)"
  by (simp add: mapToBoldIt_def slice_def join_map_units described_filled_def
      mapped_filled_def Let_def or_else_filled)

lemma mapTo_two:
  assumes "split w COLON = [m, p]"
  shows "mapTo codes w = described_filled codes m p"
  using assms
  by (simp add: mapTo_def join_def split_units_def or_else_filled_fun
      described_filled_def mapped_filled_def Let_def)

lemma mapTo_other:
  assumes "length (split w COLON) \<noteq> 2"
  shows "mapTo codes w = None"
  using assms by (auto simp: mapTo_def split: list.splits)

text \<open>None of them ever produces the empty string.\<close>

lemma filled_entry_not_Nil: "filled_entry_or_self t pre c \<noteq> []"
  by (simp add: filled_entry_or_self_def split: option.splits)

lemma mapped_filled_Nil: "mapped_filled t pre s = [] \<Longrightarrow> s = []"
  by (cases s) (simp_all add: mapped_filled_def filled_entry_not_Nil)

lemma described_filled_not_empty: "described_filled t pre s \<noteq> Some []"
  using mapped_filled_Nil [of t pre s] by (auto simp: described_filled_def)

lemma mapTo_not_empty: "mapTo codes w \<noteq> Some []"
proof (cases "length (split w COLON) = 2")
  case True
  then obtain m p where "split w COLON = [m, p]"
    by (cases "split w COLON"; cases "tl (split w COLON)") auto
  then show ?thesis
    by (simp add: mapTo_two described_filled_not_empty)
next
  case False
  then show ?thesis by (simp add: mapTo_other)
qed

lemma or_else_not_empty: "or_else v None Some \<noteq> Some []"
  by (simp add: or_else_def split: option.splits)

section \<open>The dispatch of \<^verbatim>\<open>doWord\<close>\<close>

lemma doWord_not_empty: "doWord codes w \<noteq> Some []"
  by (simp add: doWord_def Let_def mapToSubSup_filled mapToBoldIt_filled
      described_filled_not_empty mapTo_not_empty or_else_not_empty str_foo_def)

lemma doWord_cases:
  "doWord codes w = None \<or> (\<exists>s. doWord codes w = Some s \<and> s \<noteq> [])"
  using doWord_not_empty [of codes w] by (cases "doWord codes w") auto

lemma doWord_underscore:
  "doWord codes (BACKSLASH # UNDERSCORE # s) = mapToSubSup (BACKSLASH # UNDERSCORE # s) subs"
  by (simp add: doWord_def charAt_def)

lemma doWord_caret:
  "doWord codes (BACKSLASH # CARET # s) = mapToSubSup (BACKSLASH # CARET # s) sups"
  by (simp add: doWord_def charAt_def)

lemma doWord_reaches_mapTo:
  assumes "startsWith w [BACKSLASH]" "\<not> startsWith w [BACKSLASH, COLON]"
    and "charAt w 1 \<noteq> [UNDERSCORE]" "charAt w 1 \<noteq> [CARET]"
    and "\<not> startsWith w str_i_colon" "\<not> startsWith w str_b_colon"
    and "COLON \<in> set w"
  shows "doWord codes w = mapTo codes w"
  using assms by (simp add: doWord_def includes_str_def)

section \<open>Subscript and superscript mode\<close>

text \<open>
  C1. For every string \<open>s\<close>, \<^verbatim>\<open>doWord\<close> on the token \<open>\_\<close> followed by \<open>s\<close> works on the
  string \<open>mapped subs [] s\<close>: it has the length of \<open>s\<close>, its character at every index is
  the subscript table's entry for the character of \<open>s\<close> at that index when there is one
  and that character itself otherwise, and the result is absent exactly when the mapped
  string equals \<open>s\<close> and is the mapped string otherwise. The same holds for the token
  \<open>\^\<close> followed by \<open>s\<close> and the superscript table. The primary table plays no part.
\<close>

theorem doWord_subscript_superscript:
  "(length (mapped subs [] s) = length s
      \<and> (\<forall>i<length s. [mapped subs [] s ! i] = entry_or_self subs [] (s ! i))
      \<and> doWord codes (BACKSLASH # UNDERSCORE # s) = described subs [] s
      \<and> (doWord codes (BACKSLASH # UNDERSCORE # s) = None \<longleftrightarrow> mapped subs [] s = s))
 \<and> (length (mapped sups [] s) = length s
      \<and> (\<forall>i<length s. [mapped sups [] s ! i] = entry_or_self sups [] (s ! i))
      \<and> doWord codes (BACKSLASH # CARET # s) = described sups [] s
      \<and> (doWord codes (BACKSLASH # CARET # s) = None \<longleftrightarrow> mapped sups [] s = s))"
proof -
  have sub: "doWord codes (BACKSLASH # UNDERSCORE # s) = described subs [] s"
    by (simp add: doWord_underscore mapToSubSup_filled described_filled_subs)
  have sup: "doWord codes (BACKSLASH # CARET # s) = described sups [] s"
    by (simp add: doWord_caret mapToSubSup_filled described_filled_sups)
  have l1: "length (mapped subs [] s) = length s
      \<and> (\<forall>i<length s. [mapped subs [] s ! i] = entry_or_self subs [] (s ! i))"
    unfolding mapped_def by (rule concat_units) (rule length_entry_subs)
  have l2: "length (mapped sups [] s) = length s
      \<and> (\<forall>i<length s. [mapped sups [] s ! i] = entry_or_self sups [] (s ! i))"
    unfolding mapped_def by (rule concat_units) (rule length_entry_sups)
  show ?thesis
    using l1 l2 by (simp add: sub sup described_def)
qed

text \<open>
  The theorem at the payload \<open>2Q\<close> with an empty primary table: \<open>2\<close> has an entry in both
  tables, \<open>Q\<close> has none, and index 0 is inside the payload.
\<close>

theorem doWord_subscript_superscript_witness:
  "doWord [] [BACKSLASH, UNDERSCORE, 0x32, 0x51] = Some [0x2082, 0x51]
   \<and> doWord [] [BACKSLASH, CARET, 0x32, 0x51] = Some [0xB2, 0x51]
   \<and> (0::nat) < length [0x32, 0x51 :: jschar]
   \<and> [mapped subs [] [0x32, 0x51] ! 0] = [0x2082]"
  using doWord_subscript_superscript [of "[0x32, 0x51]" "[]"]
  by (simp add: described_def mapped_def entry_or_self_def lookup_def subs_def sups_def)

text \<open>
  C9. \<^verbatim>\<open>doWord\<close> on the token \<open>\_2\<close> returns the one-character string U+2082
  (subscript two), because \<open>2\<close> has that entry in the subscript table; on the token
  \<open>\_Q\<close> it returns absent, because \<open>Q\<close> has no entry there. Both hold for every
  primary table.
\<close>

theorem doWord_subscript_examples:
  "doWord codes [BACKSLASH, UNDERSCORE, 0x32] = Some [0x2082]
   \<and> doWord codes [BACKSLASH, UNDERSCORE, 0x51] = None
   \<and> lookup subs [0x32] = Some [0x2082] \<and> lookup subs [0x51] = None"
  by (simp add: doWord_def charAt_def mapToSubSup_def slice_def split_units_def join_def
      or_else_def lookup_def subs_def)

section \<open>Italic mode\<close>

text \<open>
  C10. For every token that starts with \<open>\i:\<close>, that is with the code units 0x5C, 0x69,
  0x3A, \<^verbatim>\<open>doWord\<close> returns the three-unit string \<open>foo\<close>, 0x66, 0x6F, 0x6F, whatever
  follows the prefix and whatever the primary table holds: the italic path is never
  absent and reads no table.
\<close>

theorem doWord_italic_placeholder:
  "doWord codes (BACKSLASH # 0x69 # COLON # s) = Some [0x66, 0x6F, 0x6F]"
  by (simp add: doWord_def charAt_def startsWith_def str_i_colon_def str_foo_def)

section \<open>Bold mode\<close>

text \<open>
  C3, as the specification words it, fails where the primary table holds an empty string:
  with the single entry \<open>\mbfa \<mapsto> ""\<close> the token \<open>\b:a\<close> should expand to the empty
  string, and \<^verbatim>\<open>doWord\<close> returns absent, since \<^verbatim>\<open>||\<close> takes the empty entry for a
  missing one.
\<close>

theorem doWord_bold_empty_entry:
  "doWord [([BACKSLASH, 0x6D, 0x62, 0x66, 0x61], [])] [BACKSLASH, 0x62, COLON, 0x61] = None
   \<and> described [([BACKSLASH, 0x6D, 0x62, 0x66, 0x61], [])] [BACKSLASH, 0x6D, 0x62, 0x66] [0x61]
       = Some []"
  by (simp add: doWord_def charAt_def startsWith_def str_i_colon_def str_b_colon_def
      mapToBoldIt_def slice_def str_mbf_def split_units_def join_def or_else_def lookup_def
      described_def mapped_def entry_or_self_def)

text \<open>
  C3, amended. For every string \<open>s\<close>, \<^verbatim>\<open>doWord\<close> on the token \<open>\b:\<close> followed by \<open>s\<close>
  returns the string obtained by replacing each character \<open>c\<close> of \<open>s\<close> with the primary
  table's entry for \<open>\mbf\<close> followed by \<open>c\<close> when that entry exists and is not the empty
  string, and with \<open>c\<close> itself otherwise; it returns absent exactly when that string
  equals \<open>s\<close>.
\<close>

theorem doWord_bold:
  "doWord codes (str_b_colon @ s) = described_filled codes str_mbf s
   \<and> (doWord codes (str_b_colon @ s) = None \<longleftrightarrow> mapped_filled codes str_mbf s = s)"
proof -
  have "doWord codes (str_b_colon @ s) = mapToBoldIt codes (str_b_colon @ s) True"
    by (simp add: doWord_def charAt_def startsWith_def str_b_colon_def str_i_colon_def)
  also have "\<dots> = described_filled codes str_mbf s"
    by (simp add: str_b_colon_def mapToBoldIt_filled)
  finally show ?thesis
    by (simp add: described_filled_def)
qed

section \<open>Generic modifier mode\<close>

text \<open>
  C2, as the specification words it, fails where the primary table holds an empty string:
  with the single entry \<open>\ax \<mapsto> ""\<close> the token \<open>\a:x\<close> should expand to the empty
  string, and \<^verbatim>\<open>doWord\<close> returns absent.
\<close>

theorem doWord_generic_modifier_empty_entry:
  "doWord [([BACKSLASH, 0x61, 0x78], [])] [BACKSLASH, 0x61, COLON, 0x78] = None
   \<and> described [([BACKSLASH, 0x61, 0x78], [])] [BACKSLASH, 0x61] [0x78] = Some []"
  by (simp add: doWord_def charAt_def startsWith_def str_i_colon_def str_b_colon_def
      includes_str_def mapTo_def split_units_def join_def or_else_def lookup_def
      described_def mapped_def entry_or_self_def)

text \<open>
  C2, amended. Take a token that starts with a backslash but not with \<open>\:\<close>, whose second
  character is neither \<open>_\<close> nor \<open>^\<close>, that starts with neither \<open>\i:\<close> nor \<open>\b:\<close>, and
  that contains a colon; let \<open>m\<close> be the text before its first colon and \<open>p\<close> the text
  after it. If the token has exactly one colon, \<^verbatim>\<open>doWord\<close> returns the string obtained
  by replacing each character \<open>c\<close> of \<open>p\<close> with the primary table's entry for \<open>m\<close>
  followed by \<open>c\<close> when that entry exists and is not the empty string, and with \<open>c\<close>
  itself otherwise, and absent if that string equals \<open>p\<close>. If the token has more than
  one colon, \<^verbatim>\<open>doWord\<close> returns absent.
\<close>

theorem doWord_generic_modifier:
  assumes "w = m @ COLON # p" and "COLON \<notin> set m"
    and "startsWith w [BACKSLASH]" and "\<not> startsWith w [BACKSLASH, COLON]"
    and "charAt w 1 \<noteq> [UNDERSCORE]" and "charAt w 1 \<noteq> [CARET]"
    and "\<not> startsWith w str_i_colon" and "\<not> startsWith w str_b_colon"
  shows "doWord codes w = (if colons w = 1 then described_filled codes m p else None)"
proof -
  have "COLON \<in> set w" using assms(1) by simp
  then have dw: "doWord codes w = mapTo codes w"
    using assms by (intro doWord_reaches_mapTo)
  have sp: "split w COLON = m # split p COLON"
    using assms(1,2) by (simp add: split_first)
  have cnt: "colons w = Suc (colons p)"
  proof -
    have "filter (\<lambda>c. c = COLON) m = []"
      using assms(2) by (auto simp: filter_empty_conv)
    then show ?thesis
      using assms(1) by (simp add: colons_def)
  qed
  show ?thesis
  proof (cases "colons p = 0")
    case True
    then have "COLON \<notin> set p"
      by (auto simp: colons_def filter_empty_conv)
    then have "split w COLON = [m, p]"
      using sp by (simp add: split_no_sep)
    then show ?thesis
      using dw cnt True by (simp add: mapTo_two)
  next
    case False
    have "length (split w COLON) = Suc (Suc (colons p))"
      using sp by (simp add: length_split colons_def)
    with False have "length (split w COLON) \<noteq> 2" by simp
    then show ?thesis
      using dw cnt False by (simp add: mapTo_other)
  qed
qed

text \<open>
  The theorem at the tokens \<open>\a:x\<close> and \<open>\a:x:x\<close> with the primary table
  \<open>\ax \<mapsto> y\<close>: the first has one colon and expands to \<open>y\<close>, the second has two
  and is absent.
\<close>

theorem doWord_generic_modifier_witness:
  "doWord [([BACKSLASH, 0x61, 0x78], [0x79])] [BACKSLASH, 0x61, COLON, 0x78] = Some [0x79]
   \<and> doWord [([BACKSLASH, 0x61, 0x78], [0x79])] [BACKSLASH, 0x61, COLON, 0x78, COLON, 0x78]
       = None"
  using doWord_generic_modifier [of "[BACKSLASH, 0x61, COLON, 0x78]" "[BACKSLASH, 0x61]"
      "[0x78]" "[([BACKSLASH, 0x61, 0x78], [0x79])]"]
    doWord_generic_modifier [of "[BACKSLASH, 0x61, COLON, 0x78, COLON, 0x78]"
      "[BACKSLASH, 0x61]" "[0x78, COLON, 0x78]" "[([BACKSLASH, 0x61, 0x78], [0x79])]"]
  by (simp add: startsWith_def charAt_def str_i_colon_def str_b_colon_def colons_def
      described_filled_def mapped_filled_def filled_entry_or_self_def lookup_def)

section \<open>What the locator computes\<close>

lemma lineBefore_eq:
  "lineBefore doc pos =
     (if line pos < length doc then take (character pos) (doc ! line pos) else [])"
  by (simp add: lineBefore_def new_Range_def isBefore_def getText_def)

lemma getWordRangeAtPosition_throws:
  assumes "lastIndexOf (lineBefore doc pos) BACKSLASH < 0"
  shows "getWordRangeAtPosition doc pos = Inl IllegalArgument"
  using assms
  by (simp add: getWordRangeAtPosition_def new_Position_def lineBefore_def Let_def)

lemma getWordRangeAtPosition_returns:
  assumes "0 \<le> lastIndexOf (lineBefore doc pos) BACKSLASH"
  shows "getWordRangeAtPosition doc pos =
           Inr (\<lparr>start = \<lparr>line = line pos,
                           character = nat (lastIndexOf (lineBefore doc pos) BACKSLASH)\<rparr>,
                  end_pos = \<lparr>line = line pos,
                             character = nat (lastIndexOf (lineBefore doc pos) BACKSLASH)
                               + length (trim (drop (nat (lastIndexOf (lineBefore doc pos) BACKSLASH))
                                                    (lineBefore doc pos)))\<rparr>\<rparr>,
                trim (drop (nat (lastIndexOf (lineBefore doc pos) BACKSLASH)) (lineBefore doc pos)))"
  using assms
  by (simp add: getWordRangeAtPosition_def new_Position_def lineBefore_def Let_def
      translate_def new_Range_def isBefore_def slice_def nat_add_distrib)

lemma evalPosition_eq:
  "evalPosition doc pos =
     (if character pos = 0 \<or> lastIndexOf (lineBefore doc pos) BACKSLASH < 0 then None
      else Some (\<lparr>start = \<lparr>line = line pos,
                           character = nat (lastIndexOf (lineBefore doc pos) BACKSLASH)\<rparr>,
                  end_pos = \<lparr>line = line pos,
                             character = nat (lastIndexOf (lineBefore doc pos) BACKSLASH)
                               + length (trim (drop (nat (lastIndexOf (lineBefore doc pos) BACKSLASH))
                                                    (lineBefore doc pos)))\<rparr>\<rparr>,
                 trim (drop (nat (lastIndexOf (lineBefore doc pos) BACKSLASH)) (lineBefore doc pos))))"
proof (cases "lastIndexOf (lineBefore doc pos) BACKSLASH < 0")
  case True
  then show ?thesis
    by (simp add: evalPosition_def getWordRangeAtPosition_throws)
next
  case False
  then have nn: "0 \<le> lastIndexOf (lineBefore doc pos) BACKSLASH" by simp
  obtain rest where tr: "trim (drop (nat (lastIndexOf (lineBefore doc pos) BACKSLASH))
                                     (lineBefore doc pos)) = BACKSLASH # rest"
    using drop_lastIndexOf [OF nn] trim_backslash by simp
  show ?thesis
    using False tr
    by (simp add: evalPosition_def getWordRangeAtPosition_returns [OF nn] startsWith_def)
qed

text \<open>
  A result of \<^verbatim>\<open>evalPosition\<close>, taken apart: \<open>k\<close> is the column of the last backslash
  before the cursor, \<open>rest\<close> the text between that backslash and the cursor, and \<open>n\<close>
  the length of \<open>rest\<close> without its trailing white space.
\<close>

lemma evalPosition_decompose:
  assumes "evalPosition doc pos = Some (r, w)"
  shows "\<exists>k rest n. int k = lastIndexOf (lineBefore doc pos) BACKSLASH
           \<and> k < length (lineBefore doc pos)
           \<and> drop k (lineBefore doc pos) = BACKSLASH # rest
           \<and> n = length (dropWhile isWhiteSpace (rev rest)) \<and> n \<le> length rest
           \<and> w = trim (drop k (lineBefore doc pos)) \<and> w = BACKSLASH # take n rest
           \<and> r = \<lparr>start = \<lparr>line = line pos, character = k\<rparr>,
                    end_pos = \<lparr>line = line pos, character = k + Suc n\<rparr>\<rparr>
           \<and> length (lineBefore doc pos) \<le> character pos"
proof -
  define ln where "ln = lineBefore doc pos"
  define k where "k = nat (lastIndexOf ln BACKSLASH)"
  define rest where "rest = drop (Suc k) ln"
  define n where "n = length (dropWhile isWhiteSpace (rev rest))"
  have nn: "0 \<le> lastIndexOf ln BACKSLASH"
    using assms unfolding ln_def by (simp add: evalPosition_eq split: if_splits)
  have r: "r = \<lparr>start = \<lparr>line = line pos, character = k\<rparr>,
                end_pos = \<lparr>line = line pos, character = k + length w\<rparr>\<rparr>"
    and w: "w = trim (drop k ln)"
    using assms unfolding ln_def k_def by (auto simp: evalPosition_eq split: if_splits)
  have klt: "k < length ln"
    using nn lastIndexOf_lt [of ln BACKSLASH] unfolding k_def by simp
  have kint: "int k = lastIndexOf ln BACKSLASH"
    using nn unfolding k_def by simp
  have dr: "drop k ln = BACKSLASH # rest"
    using drop_lastIndexOf [OF nn] unfolding k_def rest_def by simp
  have w2: "w = BACKSLASH # take n rest"
    unfolding w dr trim_backslash n_def using trim_end_take [of isWhiteSpace rest] by simp
  have nle: "n \<le> length rest"
    unfolding n_def using length_dropWhile_le [of isWhiteSpace "rev rest"] by simp
  have lw: "length w = Suc n"
    using w2 nle by simp
  have lnle: "length ln \<le> character pos"
    unfolding ln_def by (simp add: lineBefore_eq)
  show ?thesis
    unfolding ln_def [symmetric]
    using kint klt dr n_def nle w w2 r lw lnle by auto
qed

section \<open>The span of a located token\<close>

text \<open>
  C4, as the specification words it, fails when white space stands between the token and
  the cursor: on the line \<open>\a\<close> followed by a space, with the cursor at column 3, the
  span runs from column 0 to column 2, not to the cursor column.
\<close>

theorem evalPosition_span_trailing_space:
  "evalPosition [[BACKSLASH, 0x61, 0x20]] \<lparr>line = 0, character = 3\<rparr>
     = Some (\<lparr>start = \<lparr>line = 0, character = 0\<rparr>, end_pos = \<lparr>line = 0, character = 2\<rparr>\<rparr>,
             [BACKSLASH, 0x61])"
  by (simp add: evalPosition_eq lineBefore_eq trim_def isWhiteSpace_def)

text \<open>
  C4, amended. For every non-absent result of \<^verbatim>\<open>evalPosition\<close>, the span lies on the
  cursor's line and starts at the last backslash of the text before the cursor; the token
  is the text from that backslash up to the cursor with its trailing white space trimmed
  off, and the span ends at its start plus the length of the token, so it covers exactly
  the token. The span never ends beyond the cursor column, and it ends exactly at the
  cursor column precisely when the text before the cursor reaches the cursor column and
  does not end in white space.
\<close>

theorem evalPosition_span:
  assumes "evalPosition doc pos = Some (r, w)"
  shows "line (start r) = line pos \<and> line (end_pos r) = line pos
    \<and> int (character (start r)) = lastIndexOf (lineBefore doc pos) BACKSLASH
    \<and> character (start r) < length (lineBefore doc pos)
    \<and> lineBefore doc pos ! character (start r) = BACKSLASH
    \<and> BACKSLASH \<notin> set (drop (Suc (character (start r))) (lineBefore doc pos))
    \<and> w = trim (drop (character (start r)) (lineBefore doc pos))
    \<and> w = take (length w) (drop (character (start r)) (lineBefore doc pos))
    \<and> character (end_pos r) = character (start r) + length w
    \<and> character (end_pos r) \<le> character pos
    \<and> (character (end_pos r) = character pos \<longleftrightarrow>
         length (lineBefore doc pos) = character pos
         \<and> \<not> isWhiteSpace (last (lineBefore doc pos)))"
proof -
  define ln where "ln = lineBefore doc pos"
  obtain k rest n where kint: "int k = lastIndexOf ln BACKSLASH"
    and klt: "k < length ln" and dr: "drop k ln = BACKSLASH # rest"
    and n: "n = length (dropWhile isWhiteSpace (rev rest))" and nle: "n \<le> length rest"
    and w: "w = trim (drop k ln)" and w2: "w = BACKSLASH # take n rest"
    and r: "r = \<lparr>start = \<lparr>line = line pos, character = k\<rparr>,
                  end_pos = \<lparr>line = line pos, character = k + Suc n\<rparr>\<rparr>"
    and lnle: "length ln \<le> character pos"
    using evalPosition_decompose [OF assms] unfolding ln_def by blast
  have nn: "0 \<le> lastIndexOf ln BACKSLASH" and k: "k = nat (lastIndexOf ln BACKSLASH)"
    using kint by simp_all
  have nth: "ln ! k = BACKSLASH" and later: "BACKSLASH \<notin> set (drop (Suc k) ln)"
    using lastIndexOf_nth [OF nn] unfolding k by simp_all
  have lw: "length w = Suc n"
    using w2 nle by simp
  have "length (drop k ln) = Suc (length rest)"
    unfolding dr by simp
  then have lrest: "length ln = k + Suc (length rest)"
    using klt by simp
  have wtake: "w = take (length w) (drop k ln)"
    unfolding dr lw using w2 by simp
  have full: "n = length rest \<longleftrightarrow> rest = [] \<or> \<not> isWhiteSpace (last rest)"
    unfolding n by (rule trim_end_full)
  have lastln: "last ln = last (BACKSLASH # rest)"
    using dr klt by (metis last_drop)
  have endfull: "k + length w = length ln \<longleftrightarrow> \<not> isWhiteSpace (last ln)"
    unfolding lastln lw lrest using full backslash_not_ws by auto
  have endle: "k + length w \<le> length ln"
    unfolding lw lrest using nle by simp
  have iff: "k + length w = character pos \<longleftrightarrow>
         length ln = character pos \<and> \<not> isWhiteSpace (last ln)"
    using endfull endle lnle by auto
  have endpos: "k + length w \<le> character pos"
    using endle lnle by simp
  show ?thesis
    unfolding ln_def [symmetric]
    using kint klt nth later w wtake endpos iff lw by (simp add: r)
qed

text \<open>
  The theorem on the line \<open>x\a\<close> followed by a space, with the cursor at column 4: the
  last backslash is at column 1 and the span ends at column 3.
\<close>

theorem evalPosition_span_witness:
  "evalPosition [[0x78, BACKSLASH, 0x61, 0x20]] \<lparr>line = 0, character = 4\<rparr>
     = Some (\<lparr>start = \<lparr>line = 0, character = 1\<rparr>, end_pos = \<lparr>line = 0, character = 3\<rparr>\<rparr>,
             [BACKSLASH, 0x61])
   \<and> lastIndexOf (lineBefore [[0x78, BACKSLASH, 0x61, 0x20]] \<lparr>line = 0, character = 4\<rparr>)
         BACKSLASH = 1"
proof -
  have e: "evalPosition [[0x78, BACKSLASH, 0x61, 0x20]] \<lparr>line = 0, character = 4\<rparr>
     = Some (\<lparr>start = \<lparr>line = 0, character = 1\<rparr>, end_pos = \<lparr>line = 0, character = 3\<rparr>\<rparr>,
             [BACKSLASH, 0x61])"
    by (simp add: evalPosition_eq lineBefore_eq trim_def isWhiteSpace_def)
  show ?thesis
    using evalPosition_span [OF e] e by simp
qed

section \<open>When the locator finds nothing\<close>

text \<open>
  C5. For every document and cursor position, \<^verbatim>\<open>evalPosition\<close> returns absent whenever
  the cursor column is 0 or no backslash occurs in the text of the line before the cursor.
\<close>

theorem evalPosition_absent:
  assumes "character pos = 0 \<or> BACKSLASH \<notin> set (lineBefore doc pos)"
  shows "evalPosition doc pos = None"
  using assms lastIndexOf_absent [of BACKSLASH "lineBefore doc pos"]
  by (auto simp: evalPosition_eq)

text \<open>
  The theorem at column 0 of the line \<open>\a\<close>, and at the end of the line \<open>ab\<close>, which has
  no backslash.
\<close>

theorem evalPosition_absent_witness:
  "evalPosition [[BACKSLASH, 0x61]] \<lparr>line = 0, character = 0\<rparr> = None
   \<and> evalPosition [[0x61, 0x62]] \<lparr>line = 0, character = 2\<rparr> = None"
  using evalPosition_absent [of "\<lparr>line = 0, character = 0\<rparr>" "[[BACKSLASH, 0x61]]"]
    evalPosition_absent [of "\<lparr>line = 0, character = 2\<rparr>" "[[0x61, 0x62]]"]
  by (simp add: lineBefore_eq)

section \<open>Direct lookup and the empty string\<close>

text \<open>
  C8, as the specification words it, fails: with the single entry \<open>\x \<mapsto> ""\<close> in
  the primary table, the entry of the token \<open>\x\<close> is the empty string and \<^verbatim>\<open>doWord\<close>
  returns absent.
\<close>

theorem doWord_empty_entry_absent:
  "lookup [([BACKSLASH, 0x78], [])] [BACKSLASH, 0x78] = Some []
   \<and> doWord [([BACKSLASH, 0x78], [])] [BACKSLASH, 0x78] = None"
  by (simp add: doWord_def charAt_def startsWith_def str_i_colon_def str_b_colon_def
      includes_str_def or_else_def lookup_def)

text \<open>
  C8, amended. \<^verbatim>\<open>doWord\<close> never returns the empty string, on any token and with any
  primary table, so absent is never confused with an empty expansion. For every token
  that reaches the direct lookup (it starts with a backslash, its second character is
  neither \<open>_\<close> nor \<open>^\<close>, and it has no colon or starts with \<open>\:\<close>), \<^verbatim>\<open>doWord\<close>
  returns the token's entry in the primary table when that entry exists and is not the
  empty string, and absent otherwise; in particular it returns absent when the entry is
  the empty string.
\<close>

theorem doWord_direct_lookup:
  "doWord t u \<noteq> Some []
   \<and> (startsWith w [BACKSLASH] \<and> charAt w 1 \<noteq> [UNDERSCORE] \<and> charAt w 1 \<noteq> [CARET]
        \<and> (COLON \<notin> set w \<or> startsWith w [BACKSLASH, COLON]) \<longrightarrow>
          doWord codes w =
            (case lookup codes w of None \<Rightarrow> None
             | Some v \<Rightarrow> if v = [] then None else Some v)
          \<and> (lookup codes w = Some [] \<longrightarrow> doWord codes w = None))"
proof (intro conjI impI)
  show "doWord t u \<noteq> Some []"
    by (rule doWord_not_empty)
next
  assume h: "startsWith w [BACKSLASH] \<and> charAt w 1 \<noteq> [UNDERSCORE] \<and> charAt w 1 \<noteq> [CARET]
        \<and> (COLON \<notin> set w \<or> startsWith w [BACKSLASH, COLON])"
  have ni: "\<not> startsWith w str_i_colon" and nb: "\<not> startsWith w str_b_colon"
    using h by (auto simp: startsWith_prefix prefix_def str_i_colon_def str_b_colon_def)
  have dw: "doWord codes w = or_else (lookup codes w) None Some"
    using h ni nb by (auto simp: doWord_def includes_str_def)
  show "doWord codes w =
            (case lookup codes w of None \<Rightarrow> None
             | Some v \<Rightarrow> if v = [] then None else Some v)"
    using dw by (simp add: or_else_def split: option.splits)
  show "doWord codes w = None" if "lookup codes w = Some []"
    using dw that by (simp add: or_else_def)
qed

text \<open>
  The theorem at the token \<open>\x\<close>, once with the entry \<open>\x \<mapsto> ""\<close> and once with the
  entry \<open>\x \<mapsto> y\<close>; and, for its first part, at the token \<open>\i:\<close>, which expands to
  \<open>foo\<close>.
\<close>

theorem doWord_direct_lookup_witness:
  "doWord [([BACKSLASH, 0x78], [])] [BACKSLASH, 0x78] = None
   \<and> doWord [([BACKSLASH, 0x78], [0x79])] [BACKSLASH, 0x78] = Some [0x79]
   \<and> doWord [] [BACKSLASH, 0x69, COLON] \<noteq> Some []"
  using doWord_direct_lookup [where w = "[BACKSLASH, 0x78]"
        and codes = "[([BACKSLASH, 0x78], [])]" and t = "[]" and u = "[BACKSLASH, 0x69, COLON]"]
     doWord_direct_lookup [where w = "[BACKSLASH, 0x78]"
        and codes = "[([BACKSLASH, 0x78], [0x79])]" and t = "[]" and u = "[BACKSLASH, 0x69, COLON]"]
  by (simp add: startsWith_def charAt_def lookup_def)

section \<open>Evaluation over the values of the language agrees\<close>

text \<open>
  No key that is one code unit long, and no key that starts with a backslash, names a
  property of \<^verbatim>\<open>Object.prototype\<close>.
\<close>

lemma not_inherited_unit: "[c] \<notin> set Object_prototype_names"
  by (simp add: Object_prototype_names_def)

lemma not_inherited_backslash: "BACKSLASH # k \<notin> set Object_prototype_names"
  by (simp add: Object_prototype_names_def)

lemma js_or_own:
  assumes "k \<notin> set Object_prototype_names"
  shows "js_or (get_property t k) (JStr c) = JStr (or_else (lookup t k) c id)"
  using assms
  by (simp add: js_or_def get_property_def truthy_def or_else_def lookup_def
      split: option.splits)

lemma js_or_own_null:
  assumes "k \<notin> set Object_prototype_names"
  shows "js_or (get_property t k) JNull = to_jsval (or_else (lookup t k) None Some)"
  using assms
  by (simp add: js_or_def get_property_def truthy_def or_else_def lookup_def to_jsval_def
      split: option.splits)

lemma join_vals_JStr: "join_vals native (map (\<lambda>c. JStr (f c)) xs) = concat (map f xs)"
  by (simp add: join_vals_def comp_def)

lemma mapToSubSup_js_eq:
  "mapToSubSup_js native word mapper = to_jsval (mapToSubSup word mapper)"
  by (simp add: mapToSubSup_js_def mapToSubSup_def split_units_def comp_def js_or_own
      not_inherited_unit join_vals_JStr join_def to_jsval_def Let_def)

lemma mapToBoldIt_js_eq:
  "mapToBoldIt_js native codes word True = to_jsval (mapToBoldIt codes word True)"
  by (simp add: mapToBoldIt_js_def mapToBoldIt_def split_units_def comp_def js_or_own
      str_mbf_def not_inherited_backslash join_vals_JStr join_def to_jsval_def Let_def)

lemma split_backslash:
  "split (BACKSLASH # cs) COLON = (BACKSLASH # hd (split cs COLON)) # tl (split cs COLON)"
  by (simp add: split_not_Nil split: list.splits)

text \<open>
  \<^verbatim>\<open>mapTo\<close> reads \<^verbatim>\<open>modifier[1]\<close> and calls \<^verbatim>\<open>split\<close> on it only behind the test
  \<^verbatim>\<open>modifier.length === 2\<close>, so the call is on a string, for every word.
\<close>

lemma mapTo_js_returns: "\<exists>v. mapTo_js native codes w = Inr v"
proof (cases "length (split w COLON) = 2")
  case True
  then have "at_index (split w COLON) 1 = JStr (split w COLON ! 1)"
    by (simp add: at_index_def)
  then show ?thesis
    using True by (simp add: mapTo_js_def call_split_units_def Let_def)
next
  case False
  then show ?thesis by (simp add: mapTo_js_def Let_def)
qed

lemma mapTo_js_two:
  assumes sp: "split w COLON = [m, p]"
    and own: "\<And>c. m @ [c] \<notin> set Object_prototype_names"
  shows "mapTo_js native codes w = Inr (to_jsval (mapTo codes w))"
proof -
  have key: "\<And>c. js_or (get_property codes (m @ [c])) (JStr [c])
                  = JStr (or_else (lookup codes (m @ [c])) [c] id)"
    by (rule js_or_own) (rule own)
  have "mapTo_js native codes w
          = Inr (let modStr = concat (map (\<lambda>c. or_else (lookup codes (m @ [c])) [c] id) p)
                 in if modStr = p then JNull else JStr modStr)"
    by (simp add: mapTo_js_def sp at_index_def call_split_units_def split_units_def comp_def
        ToString_def key join_vals_JStr Let_def)
  moreover have "mapTo codes w
          = (let modStr = concat (map (\<lambda>c. or_else (lookup codes (m @ [c])) [c] id) p)
             in if modStr = p then None else Some modStr)"
    by (simp add: mapTo_def sp split_units_def comp_def join_def Let_def)
  ultimately show ?thesis
    by (simp add: to_jsval_def Let_def)
qed

lemma mapTo_js_other:
  assumes "length (split w COLON) \<noteq> 2"
  shows "mapTo_js native codes w = Inr (to_jsval (mapTo codes w))"
  using assms by (simp add: mapTo_js_def mapTo_other to_jsval_def Let_def)

lemma mapTo_js_eq:
  assumes "startsWith w [BACKSLASH]"
  shows "mapTo_js native codes w = Inr (to_jsval (mapTo codes w))"
proof (cases "length (split w COLON) = 2")
  case True
  obtain cs where w: "w = BACKSLASH # cs"
    using assms by (cases w) (auto simp: startsWith_def)
  have "length (tl (split cs COLON)) = 1"
    using True unfolding w by (simp only: split_backslash) simp
  then obtain p where tl: "tl (split cs COLON) = [p]"
    by (cases "tl (split cs COLON)") simp_all
  have sp: "split w COLON = [BACKSLASH # hd (split cs COLON), p]"
    unfolding w using tl by (simp only: split_backslash)
  show ?thesis
    by (rule mapTo_js_two [OF sp]) (simp add: not_inherited_backslash)
next
  case False
  then show ?thesis by (rule mapTo_js_other)
qed

lemma doWord_js_eq:
  assumes "startsWith w [BACKSLASH]"
  shows "doWord_js native codes w = Inr (to_jsval (doWord codes w))"
proof -
  obtain cs where w: "w = BACKSLASH # cs"
    using assms by (cases w) (auto simp: startsWith_def)
  have own: "w \<notin> set Object_prototype_names"
    unfolding w by (rule not_inherited_backslash)
  show ?thesis
    using assms
    by (simp add: doWord_js_def doWord_def Let_def mapToSubSup_js_eq mapToBoldIt_js_eq
        mapTo_js_eq js_or_own_null [OF own]) (simp add: to_jsval_def)
qed

lemma evalPosition_js_eq: "evalPosition_js doc pos = Inr (evalPosition doc pos)"
  by (simp add: evalPosition_js_def evalPosition_def try_catch_def
      split: sum.splits prod.splits)

text \<open>
  Without the leading backslash the result need not be a string or \<^verbatim>\<open>null\<close>: on the
  word \<^verbatim>\<open>constructor\<close> the direct lookup finds the inherited function.
\<close>

lemma doWord_js_inherited:
  "doWord_js native [] [0x63, 0x6F, 0x6E, 0x73, 0x74, 0x72, 0x75, 0x63, 0x74, 0x6F, 0x72]
     = Inr (JInherited [0x63, 0x6F, 0x6E, 0x73, 0x74, 0x72, 0x75, 0x63, 0x74, 0x6F, 0x72])"
  by (simp add: doWord_js_def charAt_def startsWith_def str_i_colon_def str_b_colon_def
      js_or_def get_property_def truthy_def Object_prototype_names_def)

text \<open>The two places where a throw can start do throw.\<close>

lemma throw_sites:
  "new_Position 0 (- 1) = Inl IllegalArgument
   \<and> call_split_units (at_index [[BACKSLASH]] 1) = Inl TypeError"
  by (simp add: new_Position_def call_split_units_def at_index_def)

section \<open>Nothing is thrown\<close>

text \<open>
  C7. The core operations never throw. Evaluated with the exceptions of the language,
  \<^verbatim>\<open>evalPosition\<close> throws on no document and no position: what \<^verbatim>\<open>getWordRangeAtPosition\<close>
  throws is caught, and the call ends in absent or in a span and a token, the token
  starting with a backslash and the span lying on the cursor's line, non-empty and not
  beyond the cursor. \<^verbatim>\<open>mapTo\<close> throws on no word. For every string that begins with a
  backslash and every primary table, \<^verbatim>\<open>doWord\<close> throws nothing and returns \<^verbatim>\<open>null\<close> or
  a non-empty string, the same result as the function \<open>doWord\<close> defined above.
\<close>

theorem core_never_throws:
  "evalPosition_js doc pos = Inr (evalPosition doc pos)
   \<and> (evalPosition_js doc pos = Inr None
      \<or> (\<exists>r w. evalPosition_js doc pos = Inr (Some (r, w)) \<and> startsWith w [BACKSLASH]
            \<and> line (start r) = line pos \<and> line (end_pos r) = line pos
            \<and> character (start r) < character (end_pos r)
            \<and> character (end_pos r) \<le> character pos))
   \<and> (\<exists>v. mapTo_js native codes u = Inr v)
   \<and> (startsWith word [BACKSLASH] \<longrightarrow>
        doWord_js native codes word = Inr (to_jsval (doWord codes word))
        \<and> (doWord_js native codes word = Inr JNull
            \<or> (\<exists>s. doWord_js native codes word = Inr (JStr s) \<and> s \<noteq> [])))"
proof (intro conjI impI)
  show "evalPosition_js doc pos = Inr (evalPosition doc pos)"
    by (rule evalPosition_js_eq)
next
  show "evalPosition_js doc pos = Inr None
      \<or> (\<exists>r w. evalPosition_js doc pos = Inr (Some (r, w)) \<and> startsWith w [BACKSLASH]
            \<and> line (start r) = line pos \<and> line (end_pos r) = line pos
            \<and> character (start r) < character (end_pos r)
            \<and> character (end_pos r) \<le> character pos)"
  proof (cases "evalPosition doc pos")
    case None
    then show ?thesis by (simp add: evalPosition_js_eq)
  next
    case (Some rw)
    obtain r w where e: "evalPosition doc pos = Some (r, w)"
      using Some by (cases rw) simp
    obtain k rest n where klt: "k < length (lineBefore doc pos)"
      and dr: "drop k (lineBefore doc pos) = BACKSLASH # rest"
      and nle: "n \<le> length rest" and w2: "w = BACKSLASH # take n rest"
      and r: "r = \<lparr>start = \<lparr>line = line pos, character = k\<rparr>,
                    end_pos = \<lparr>line = line pos, character = k + Suc n\<rparr>\<rparr>"
      and lnle: "length (lineBefore doc pos) \<le> character pos"
      using evalPosition_decompose [OF e] by blast
    have "length (drop k (lineBefore doc pos)) = Suc (length rest)"
      unfolding dr by simp
    then have "k + Suc n \<le> character pos"
      using klt nle lnle by simp
    then show ?thesis
      using e w2 r by (simp add: evalPosition_js_eq startsWith_def)
  qed
next
  show "\<exists>v. mapTo_js native codes u = Inr v"
    by (rule mapTo_js_returns)
next
  assume bs: "startsWith word [BACKSLASH]"
  show eq: "doWord_js native codes word = Inr (to_jsval (doWord codes word))"
    using bs by (rule doWord_js_eq)
  show "doWord_js native codes word = Inr JNull
            \<or> (\<exists>s. doWord_js native codes word = Inr (JStr s) \<and> s \<noteq> [])"
    using doWord_cases [of codes word] by (auto simp: eq to_jsval_def)
qed

text \<open>
  The theorem on the line \<open>a\<close> with the cursor at column 1, where the constructor of
  \<^verbatim>\<open>Position\<close> throws inside \<^verbatim>\<open>getWordRangeAtPosition\<close>; at the word \<open>a\<close>, which has no
  colon, for \<^verbatim>\<open>mapTo\<close>; and at the token \<open>\a:x\<close> with the primary table
  \<open>\ax \<mapsto> y\<close>.
\<close>

theorem core_never_throws_witness:
  "getWordRangeAtPosition [[0x61]] \<lparr>line = 0, character = 1\<rparr> = Inl IllegalArgument
   \<and> evalPosition_js [[0x61]] \<lparr>line = 0, character = 1\<rparr> = Inr None
   \<and> mapTo_js id [([BACKSLASH, 0x61, 0x78], [0x79])] [0x61] = Inr JNull
   \<and> startsWith [BACKSLASH, 0x61, COLON, 0x78] [BACKSLASH]
   \<and> doWord_js id [([BACKSLASH, 0x61, 0x78], [0x79])] [BACKSLASH, 0x61, COLON, 0x78]
       = Inr (JStr [0x79])"
proof -
  have t: "getWordRangeAtPosition [[0x61]] \<lparr>line = 0, character = 1\<rparr> = Inl IllegalArgument"
    by (rule getWordRangeAtPosition_throws) (simp add: lineBefore_eq)
  have e: "evalPosition [[0x61]] \<lparr>line = 0, character = 1\<rparr> = None"
    by (simp add: evalPosition_eq lineBefore_eq)
  have m: "mapTo_js id [([BACKSLASH, 0x61, 0x78], [0x79])] [0x61] = Inr JNull"
    by (simp add: mapTo_js_def)
  have d: "doWord [([BACKSLASH, 0x61, 0x78], [0x79])] [BACKSLASH, 0x61, COLON, 0x78]
             = Some [0x79]"
    by (simp add: doWord_def charAt_def startsWith_def str_i_colon_def str_b_colon_def
        includes_str_def mapTo_def split_units_def join_def or_else_def lookup_def)
  show ?thesis
    using core_never_throws [where doc = "[[0x61]]" and pos = "\<lparr>line = 0, character = 1\<rparr>"
        and native = id and codes = "[([BACKSLASH, 0x61, 0x78], [0x79])]" and u = "[0x61]"
        and word = "[BACKSLASH, 0x61, COLON, 0x78]"] t e m d
    by (simp add: startsWith_def to_jsval_def)
qed

section \<open>Completion\<close>

lemma set_Object_keys: "set (Object_keys t) = dom (lookup t)"
proof -
  have "dom (lookup t) = fst ` set t"
    unfolding lookup_def by (rule ext [THEN fun_cong, OF dom_map_of_conv_image_fst])
  then show ?thesis
    by (simp add: Object_keys_def)
qed

lemma set_matches: "set (matches codes p) = {k \<in> dom (lookup codes). prefix p k}"
  by (auto simp: matches_def set_Object_keys startsWith_prefix)

lemma distinct_matches: "distinct (matches codes p)"
  by (simp add: matches_def Object_keys_def)

lemma provideCompletionItems_Some:
  assumes "evalPosition doc pos = Some (target, p)"
  shows "provideCompletionItems codes doc pos = completionItems codes target p"
proof -
  have "p \<noteq> []"
    using assms by (auto simp: evalPosition_def split: if_splits sum.splits)
  then show ?thesis
    using assms by (simp add: provideCompletionItems_def)
qed

text \<open>
  C6. For every partial token \<open>p\<close>, the completion items are exactly the keys of the
  primary table that have \<open>p\<close> as a literal prefix, compared code unit by code unit,
  each key once and each paired with that key's entry in the table as its insert text
  (and its detail), on the located span; the list is empty, and nothing fails, exactly
  when no key has the prefix. These are the items \<^verbatim>\<open>provideCompletionItems\<close> returns when
  the locator yields \<open>p\<close>.
\<close>

theorem completionItems_matches:
  "set (map (\<lambda>i. (label i, insertText i)) (completionItems codes target p))
      = {(k, Some v) | k v. lookup codes k = Some v \<and> prefix p k}
   \<and> distinct (map label (completionItems codes target p))
   \<and> (\<forall>i \<in> set (completionItems codes target p).
         detail i = insertText i \<and> item_range i = target)
   \<and> (completionItems codes target p = []
         \<longleftrightarrow> \<not> (\<exists>k v. lookup codes k = Some v \<and> prefix p k))
   \<and> (evalPosition doc pos = Some (target, p) \<longrightarrow>
         provideCompletionItems codes doc pos = completionItems codes target p)"
proof -
  have a: "set (map (\<lambda>i. (label i, insertText i)) (completionItems codes target p))
           = {(k, Some v) | k v. lookup codes k = Some v \<and> prefix p k}"
    unfolding completionItems_def by (auto simp: set_matches comp_def image_iff)
  have b: "distinct (map label (completionItems codes target p))"
    unfolding completionItems_def by (simp add: comp_def distinct_matches)
  have c: "\<forall>i \<in> set (completionItems codes target p).
             detail i = insertText i \<and> item_range i = target"
    unfolding completionItems_def by auto
  have "completionItems codes target p = [] \<longleftrightarrow> set (matches codes p) = {}"
    unfolding completionItems_def by simp
  also have "\<dots> \<longleftrightarrow> \<not> (\<exists>k v. lookup codes k = Some v \<and> prefix p k)"
    unfolding set_matches by (auto simp: dom_def)
  finally have d: "completionItems codes target p = []
         \<longleftrightarrow> \<not> (\<exists>k v. lookup codes k = Some v \<and> prefix p k)" .
  have e: "evalPosition doc pos = Some (target, p) \<longrightarrow>
         provideCompletionItems codes doc pos = completionItems codes target p"
    by (simp add: provideCompletionItems_Some)
  show ?thesis
    using a b c d e by blast
qed

text \<open>
  The theorem on the line \<open>\al\<close> with the cursor at its end and a primary table with the
  keys \<open>\alpha\<close>, \<open>\beta\<close> and \<open>\aleph\<close>: the locator yields the partial token \<open>\al\<close>
  and the items are those of \<open>\alpha\<close> and \<open>\aleph\<close>, with their entries.
\<close>

theorem completionItems_matches_witness:
  "evalPosition [[BACKSLASH, 0x61, 0x6C]] \<lparr>line = 0, character = 3\<rparr>
     = Some (\<lparr>start = \<lparr>line = 0, character = 0\<rparr>, end_pos = \<lparr>line = 0, character = 3\<rparr>\<rparr>,
             [BACKSLASH, 0x61, 0x6C])
   \<and> provideCompletionItems
       [([BACKSLASH, 0x61, 0x6C, 0x70, 0x68, 0x61], [0x3B1]),
        ([BACKSLASH, 0x62, 0x65, 0x74, 0x61], [0x3B2]),
        ([BACKSLASH, 0x61, 0x6C, 0x65, 0x70, 0x68], [0x2135])]
       [[BACKSLASH, 0x61, 0x6C]] \<lparr>line = 0, character = 3\<rparr>
     = [\<lparr>label = [BACKSLASH, 0x61, 0x6C, 0x70, 0x68, 0x61], detail = Some [0x3B1],
         insertText = Some [0x3B1],
         item_range = \<lparr>start = \<lparr>line = 0, character = 0\<rparr>,
                       end_pos = \<lparr>line = 0, character = 3\<rparr>\<rparr>\<rparr>,
        \<lparr>label = [BACKSLASH, 0x61, 0x6C, 0x65, 0x70, 0x68], detail = Some [0x2135],
         insertText = Some [0x2135],
         item_range = \<lparr>start = \<lparr>line = 0, character = 0\<rparr>,
                       end_pos = \<lparr>line = 0, character = 3\<rparr>\<rparr>\<rparr>]"
proof -
  have e: "evalPosition [[BACKSLASH, 0x61, 0x6C]] \<lparr>line = 0, character = 3\<rparr>
     = Some (\<lparr>start = \<lparr>line = 0, character = 0\<rparr>, end_pos = \<lparr>line = 0, character = 3\<rparr>\<rparr>,
             [BACKSLASH, 0x61, 0x6C])"
    by (simp add: evalPosition_eq lineBefore_eq trim_def isWhiteSpace_def)
  show ?thesis
    using completionItems_matches [of
        "[([BACKSLASH, 0x61, 0x6C, 0x70, 0x68, 0x61], [0x3B1]),
          ([BACKSLASH, 0x62, 0x65, 0x74, 0x61], [0x3B2]),
          ([BACKSLASH, 0x61, 0x6C, 0x65, 0x70, 0x68], [0x2135])]"
        "\<lparr>start = \<lparr>line = 0, character = 0\<rparr>, end_pos = \<lparr>line = 0, character = 3\<rparr>\<rparr>"
        "[BACKSLASH, 0x61, 0x6C]" "[[BACKSLASH, 0x61, 0x6C]]" "\<lparr>line = 0, character = 3\<rparr>"] e
    by (simp add: completionItems_def matches_def Object_keys_def startsWith_def lookup_def)
qed

end
